theory Spec2Isabelle
  imports Main "HOL-Library.Word"
begin

section \<open>The prescription ledger: DoctorRegistry, PharmacyRegistry, PrescriptionRegistry\<close>

text \<open>
  The three Solidity contracts are embedded as functions on their storage. A storage
  \<open>mapping(K => V)\<close> is a total function \<open>K \<Rightarrow> V\<close> whose unwritten slots hold the zero
  value of \<open>V\<close>; a dynamic array is a list and \<open>push\<close> appends at the end; a
  \<open>require\<close> that fails is the value \<open>Inl\<close> of the matching error, and a call that returns
  \<open>Inl\<close> has no effect on storage (the transaction reverts). \<open>msg.sender\<close> and
  \<open>block.timestamp\<close> are the two fields of the call environment.
\<close>

type_synonym address = "160 word"
type_synonym bytes32 = "256 word"
type_synonym uint256 = "256 word"

record env =
  msg_sender :: address
  block_timestamp :: uint256

text \<open>One constructor for each revert reason of the three contracts (and of Ownable).\<close>

datatype error =
    DoctorAlreadyActive            \<comment> \<open>"Doctor already registered and active"\<close>
  | DoctorNotActive                \<comment> \<open>"Doctor is not active"\<close>
  | OwnableUnauthorizedAccount address
  | OwnableInvalidOwner address
  | PharmacyInvalidAddress         \<comment> \<open>"PharmacyRegistry: Invalid address"\<close>
  | PharmacyNameEmpty              \<comment> \<open>"PharmacyRegistry: Pharmacy name cannot be empty"\<close>
  | PharmacyAlreadyRegistered      \<comment> \<open>"PharmacyRegistry: Pharmacy already registered"\<close>
  | PharmacyNotRegistered          \<comment> \<open>"PharmacyRegistry: Pharmacy not registered"\<close>
  | NotVerifiedDoctor              \<comment> \<open>"PrescriptionRegistry: Not a verified doctor"\<close>
  | InvalidExpiryDate              \<comment> \<open>"PrescriptionRegistry: Invalid expiry date"\<close>
  | PrescriptionAlreadyExists      \<comment> \<open>"... Prescription with this content hash already exists."\<close>
  | NotVerifiedPharmacy            \<comment> \<open>"PrescriptionRegistry: Not a verified pharmacy"\<close>
  | PrescriptionDoesNotExist       \<comment> \<open>"PrescriptionRegistry: Prescription does not exist"\<close>
  | PrescriptionExpired            \<comment> \<open>"PrescriptionRegistry: Prescription expired"\<close>
  | AlreadyFulfilledByPharmacy     \<comment> \<open>"... This pharmacy has already fulfilled this prescription."\<close>
  | PharmacyNameNotFound           \<comment> \<open>"PrescriptionRegistry: Pharmacy name not found."\<close>

subsection \<open>DoctorRegistry.sol\<close>

record Doctor =
  name :: string
  licenseNumber :: string
  specialization :: string
  isActive :: bool
  registeredAt :: uint256

record DoctorRegistry =
  ownable_owner :: address                 \<comment> \<open>Ownable's owner\<close>
  doctors :: "address \<Rightarrow> Doctor"
  isVerifiedDoctor :: "address \<Rightarrow> bool"

definition zeroDoctor :: Doctor where
  "zeroDoctor = \<lparr>name = [], licenseNumber = [], specialization = [], isActive = False,
                 registeredAt = 0\<rparr>"

text \<open>\<open>registerDoctor\<close> carries no modifier: the caller is not looked at.\<close>

definition registerDoctor ::
  "DoctorRegistry \<Rightarrow> env \<Rightarrow> address \<Rightarrow> string \<Rightarrow> string \<Rightarrow> string \<Rightarrow> error + DoctorRegistry" where
  "registerDoctor dr e a nm lic sp =
     (if isActive (doctors dr a) then Inl DoctorAlreadyActive
      else Inr (dr\<lparr>doctors := (doctors dr)(a :=
                     \<lparr>name = nm, licenseNumber = lic, specialization = sp, isActive = True,
                      registeredAt = block_timestamp e\<rparr>),
                   isVerifiedDoctor := (isVerifiedDoctor dr)(a := True)\<rparr>))"

text \<open>
  \<open>deactivateDoctor\<close> is \<open>onlyOwner\<close>; the modifier, the two ownership entry points and
  the constructor's check come from OpenZeppelin's Ownable (version 5, as the constructor
  call \<open>Ownable(initialOwner)\<close> shows), which is a dependency and not part of the
  repository: they are written here as that library defines them.
\<close>

definition deactivateDoctor :: "DoctorRegistry \<Rightarrow> env \<Rightarrow> address \<Rightarrow> error + DoctorRegistry" where
  "deactivateDoctor dr e a =
     (if ownable_owner dr \<noteq> msg_sender e then Inl (OwnableUnauthorizedAccount (msg_sender e))
      else if \<not> isActive (doctors dr a) then Inl DoctorNotActive
      else Inr (dr\<lparr>isVerifiedDoctor := (isVerifiedDoctor dr)(a := False),
                   doctors := (doctors dr)(a := (doctors dr a)\<lparr>isActive := False\<rparr>)\<rparr>))"

definition transferOwnership :: "DoctorRegistry \<Rightarrow> env \<Rightarrow> address \<Rightarrow> error + DoctorRegistry" where
  "transferOwnership dr e newOwner =
     (if ownable_owner dr \<noteq> msg_sender e then Inl (OwnableUnauthorizedAccount (msg_sender e))
      else if newOwner = 0 then Inl (OwnableInvalidOwner 0)
      else Inr (dr\<lparr>ownable_owner := newOwner\<rparr>))"

definition renounceOwnership :: "DoctorRegistry \<Rightarrow> env \<Rightarrow> error + DoctorRegistry" where
  "renounceOwnership dr e =
     (if ownable_owner dr \<noteq> msg_sender e then Inl (OwnableUnauthorizedAccount (msg_sender e))
      else Inr (dr\<lparr>ownable_owner := 0\<rparr>))"

subsection \<open>PharmacyRegistry.sol: contract PharmacyRegistry\<close>

record PharmacyRegistry =
  owner :: address
  verifiedPharmacies :: "address \<Rightarrow> string"

text \<open>\<open>bytes(s).length > 0\<close> is \<open>s \<noteq> []\<close>.\<close>

definition registerPharmacy ::
  "PharmacyRegistry \<Rightarrow> env \<Rightarrow> address \<Rightarrow> string \<Rightarrow> error + PharmacyRegistry" where
  "registerPharmacy ph e a nm =
     (if a = 0 then Inl PharmacyInvalidAddress
      else if nm = [] then Inl PharmacyNameEmpty
      else if verifiedPharmacies ph a \<noteq> [] then Inl PharmacyAlreadyRegistered
      else Inr (ph\<lparr>verifiedPharmacies := (verifiedPharmacies ph)(a := nm)\<rparr>))"

definition removePharmacy :: "PharmacyRegistry \<Rightarrow> env \<Rightarrow> address \<Rightarrow> error + PharmacyRegistry" where
  "removePharmacy ph e a =
     (if verifiedPharmacies ph a = [] then Inl PharmacyNotRegistered
      else Inr (ph\<lparr>verifiedPharmacies := (verifiedPharmacies ph)(a := [])\<rparr>))"

definition isVerifiedPharmacy :: "PharmacyRegistry \<Rightarrow> address \<Rightarrow> bool" where
  "isVerifiedPharmacy ph a = (verifiedPharmacies ph a \<noteq> [])"

definition getPharmacyName :: "PharmacyRegistry \<Rightarrow> address \<Rightarrow> string" where
  "getPharmacyName ph a = verifiedPharmacies ph a"

subsection \<open>PharmacyRegistry.sol: contract PrescriptionRegistry\<close>

record Fulfillment =
  pharmacyAddress :: address
  pharmacyName :: string
  fulfilledAt :: uint256

record Prescription =
  doctor :: address
  patient :: address
  contentHash :: bytes32
  ipfsHash :: string
  issuedAt :: uint256
  expiryDate :: uint256
  fulfillments :: "Fulfillment list"
  hasFulfilled :: "address \<Rightarrow> bool"

record PrescriptionRegistry =
  prescriptions :: "bytes32 \<Rightarrow> Prescription"
  patientPrescriptions :: "address \<Rightarrow> bytes32 list"
  doctorPrescriptions :: "address \<Rightarrow> bytes32 list"

definition zeroPrescription :: Prescription where
  "zeroPrescription = \<lparr>doctor = 0, patient = 0, contentHash = 0, ipfsHash = [], issuedAt = 0,
                       expiryDate = 0, fulfillments = [], hasFulfilled = (\<lambda>_. False)\<rparr>"

text \<open>
  The contract has no presence flag: a record exists when its \<open>doctor\<close> field is not the
  zero address. All three of \<open>issuePrescription\<close>, \<open>fulfillPrescription\<close> and
  \<open>getPrescriptionDetails\<close> use this test.
\<close>

abbreviation recordExists :: "PrescriptionRegistry \<Rightarrow> bytes32 \<Rightarrow> bool" where
  "recordExists pr pid \<equiv> doctor (prescriptions pr pid) \<noteq> 0"

text \<open>
  \<open>issuePrescription\<close> reads \<open>doctorRegistry.isVerifiedDoctor(msg.sender)\<close>, so it takes
  the registry's storage. It assigns the six scalar fields of the storage slot one by one;
  \<open>fulfillments\<close> and \<open>hasFulfilled\<close> of the slot are left as they are.
\<close>

definition issuePrescription ::
  "DoctorRegistry \<Rightarrow> PrescriptionRegistry \<Rightarrow> env \<Rightarrow> address \<Rightarrow> bytes32 \<Rightarrow> string \<Rightarrow> uint256
     \<Rightarrow> error + (PrescriptionRegistry \<times> bytes32)" where
  "issuePrescription dr pr e pat h ipfs expiry =
     (if \<not> isVerifiedDoctor dr (msg_sender e) then Inl NotVerifiedDoctor
      else if \<not> (expiry > block_timestamp e) then Inl InvalidExpiryDate
      else if \<not> (doctor (prescriptions pr h) = 0) then Inl PrescriptionAlreadyExists
      else Inr (pr\<lparr>prescriptions := (prescriptions pr)(h :=
                      (prescriptions pr h)\<lparr>doctor := msg_sender e, patient := pat,
                         contentHash := h, ipfsHash := ipfs, issuedAt := block_timestamp e,
                         expiryDate := expiry\<rparr>),
                    patientPrescriptions := (patientPrescriptions pr)(pat :=
                      patientPrescriptions pr pat @ [h]),
                    doctorPrescriptions := (doctorPrescriptions pr)(msg_sender e :=
                      doctorPrescriptions pr (msg_sender e) @ [h])\<rparr>, h))"

definition fulfillPrescription ::
  "PharmacyRegistry \<Rightarrow> PrescriptionRegistry \<Rightarrow> env \<Rightarrow> bytes32 \<Rightarrow> error + PrescriptionRegistry" where
  "fulfillPrescription ph pr e pid =
     (if \<not> isVerifiedPharmacy ph (msg_sender e) then Inl NotVerifiedPharmacy
      else let prescription = prescriptions pr pid in
      if \<not> (doctor prescription \<noteq> 0) then Inl PrescriptionDoesNotExist
      else if \<not> (block_timestamp e \<le> expiryDate prescription) then Inl PrescriptionExpired
      else if hasFulfilled prescription (msg_sender e) then Inl AlreadyFulfilledByPharmacy
      else let pharmacyName' = getPharmacyName ph (msg_sender e) in
      if \<not> (pharmacyName' \<noteq> []) then Inl PharmacyNameNotFound
      else Inr (pr\<lparr>prescriptions := (prescriptions pr)(pid :=
                      prescription\<lparr>fulfillments := fulfillments prescription @
                           [\<lparr>pharmacyAddress = msg_sender e, pharmacyName = pharmacyName',
                             fulfilledAt = block_timestamp e\<rparr>],
                         hasFulfilled := (hasFulfilled prescription)(msg_sender e := True)\<rparr>)\<rparr>))"

definition verifyPrescription :: "PrescriptionRegistry \<Rightarrow> env \<Rightarrow> bytes32 \<Rightarrow> bytes32 \<Rightarrow> bool" where
  "verifyPrescription pr e pid expectedContentHash =
     (let prescription = prescriptions pr pid in
      contentHash prescription = expectedContentHash \<and>
      doctor prescription \<noteq> 0 \<and>
      block_timestamp e \<le> expiryDate prescription)"

type_synonym details =
  "address \<times> address \<times> bytes32 \<times> string \<times> uint256 \<times> uint256 \<times> Fulfillment list"

definition getPrescriptionDetails :: "PrescriptionRegistry \<Rightarrow> bytes32 \<Rightarrow> error + details" where
  "getPrescriptionDetails pr pid =
     (let prescription = prescriptions pr pid in
      if \<not> (doctor prescription \<noteq> 0) then Inl PrescriptionDoesNotExist
      else Inr (doctor prescription, patient prescription, contentHash prescription,
                ipfsHash prescription, issuedAt prescription, expiryDate prescription,
                fulfillments prescription))"

text \<open>The next three are views without a \<open>require\<close>: they have no error branch.\<close>

definition hasPharmacyFulfilled :: "PrescriptionRegistry \<Rightarrow> bytes32 \<Rightarrow> address \<Rightarrow> bool" where
  "hasPharmacyFulfilled pr pid a = hasFulfilled (prescriptions pr pid) a"

definition getPatientPrescriptionIds :: "PrescriptionRegistry \<Rightarrow> address \<Rightarrow> bytes32 list" where
  "getPatientPrescriptionIds pr a = patientPrescriptions pr a"

definition getDoctorPrescriptionIds :: "PrescriptionRegistry \<Rightarrow> address \<Rightarrow> bytes32 list" where
  "getDoctorPrescriptionIds pr a = doctorPrescriptions pr a"

subsection \<open>The deployed system and its transactions\<close>

text \<open>
  The deployment script creates one contract of each kind and hands the addresses of the
  two registries to PrescriptionRegistry, so the deployed system is the three storages
  together. Ownable's constructor rejects the zero address as initial owner.
\<close>

record world =
  doctorRegistry :: DoctorRegistry
  pharmacyRegistry :: PharmacyRegistry
  registry :: PrescriptionRegistry

definition genesis :: "address \<Rightarrow> world" where
  "genesis deployer =
     \<lparr>doctorRegistry = \<lparr>ownable_owner = deployer, doctors = (\<lambda>_. zeroDoctor),
                         isVerifiedDoctor = (\<lambda>_. False)\<rparr>,
      pharmacyRegistry = \<lparr>owner = deployer, verifiedPharmacies = (\<lambda>_. [])\<rparr>,
      registry = \<lparr>prescriptions = (\<lambda>_. zeroPrescription),
                   patientPrescriptions = (\<lambda>_. []),
                   doctorPrescriptions = (\<lambda>_. [])\<rparr>\<rparr>"

definition deploy :: "address \<Rightarrow> error + world" where
  "deploy deployer =
     (if deployer = 0 then Inl (OwnableInvalidOwner 0) else Inr (genesis deployer))"

text \<open>Every state-changing entry point of the three contracts.\<close>

datatype call =
    RegisterDoctor address string string string
  | DeactivateDoctor address
  | TransferOwnership address
  | RenounceOwnership
  | RegisterPharmacy address string
  | RemovePharmacy address
  | IssuePrescription address bytes32 string uint256
  | FulfillPrescription bytes32

fun transact :: "world \<Rightarrow> env \<Rightarrow> call \<Rightarrow> error + world" where
  "transact w e (RegisterDoctor a nm lic sp) =
     (case registerDoctor (doctorRegistry w) e a nm lic sp of
        Inl err \<Rightarrow> Inl err | Inr dr \<Rightarrow> Inr (w\<lparr>doctorRegistry := dr\<rparr>))"
| "transact w e (DeactivateDoctor a) =
     (case deactivateDoctor (doctorRegistry w) e a of
        Inl err \<Rightarrow> Inl err | Inr dr \<Rightarrow> Inr (w\<lparr>doctorRegistry := dr\<rparr>))"
| "transact w e (TransferOwnership a) =
     (case transferOwnership (doctorRegistry w) e a of
        Inl err \<Rightarrow> Inl err | Inr dr \<Rightarrow> Inr (w\<lparr>doctorRegistry := dr\<rparr>))"
| "transact w e RenounceOwnership =
     (case renounceOwnership (doctorRegistry w) e of
        Inl err \<Rightarrow> Inl err | Inr dr \<Rightarrow> Inr (w\<lparr>doctorRegistry := dr\<rparr>))"
| "transact w e (RegisterPharmacy a nm) =
     (case registerPharmacy (pharmacyRegistry w) e a nm of
        Inl err \<Rightarrow> Inl err | Inr ph \<Rightarrow> Inr (w\<lparr>pharmacyRegistry := ph\<rparr>))"
| "transact w e (RemovePharmacy a) =
     (case removePharmacy (pharmacyRegistry w) e a of
        Inl err \<Rightarrow> Inl err | Inr ph \<Rightarrow> Inr (w\<lparr>pharmacyRegistry := ph\<rparr>))"
| "transact w e (IssuePrescription pat h ipfs expiry) =
     (case issuePrescription (doctorRegistry w) (registry w) e pat h ipfs expiry of
        Inl err \<Rightarrow> Inl err | Inr (pr, _) \<Rightarrow> Inr (w\<lparr>registry := pr\<rparr>))"
| "transact w e (FulfillPrescription pid) =
     (case fulfillPrescription (pharmacyRegistry w) (registry w) e pid of
        Inl err \<Rightarrow> Inl err | Inr pr \<Rightarrow> Inr (w\<lparr>registry := pr\<rparr>))"

text \<open>A reverted transaction leaves the storage of all three contracts as it was.\<close>

definition commit :: "world \<Rightarrow> env \<times> call \<Rightarrow> world" where
  "commit w tx = (case transact w (fst tx) (snd tx) of Inl _ \<Rightarrow> w | Inr w' \<Rightarrow> w')"

fun run :: "world \<Rightarrow> (env \<times> call) list \<Rightarrow> world" where
  "run w [] = w"
| "run w (tx # txs) = run (commit w tx) txs"

text \<open>
  The ids of the successful \<open>issuePrescription\<close> transactions of a history, in the order
  in which they were mined.
\<close>

fun issuedBy :: "world \<Rightarrow> env \<times> call \<Rightarrow> bytes32 list" where
  "issuedBy w (e, IssuePrescription pat h ipfs expiry) =
     (case issuePrescription (doctorRegistry w) (registry w) e pat h ipfs expiry of
        Inl _ \<Rightarrow> [] | Inr (_, pid) \<Rightarrow> [pid])"
| "issuedBy w (e, _) = []"

fun issued :: "world \<Rightarrow> (env \<times> call) list \<Rightarrow> bytes32 list" where
  "issued w [] = []"
| "issued w (tx # txs) = issuedBy w tx @ issued (commit w tx) txs"

text \<open>The callers of the \<open>issuePrescription\<close> transactions of a history.\<close>

fun issuers :: "(env \<times> call) list \<Rightarrow> address list" where
  "issuers [] = []"
| "issuers ((e, IssuePrescription pat h ipfs expiry) # txs) = msg_sender e # issuers txs"
| "issuers (_ # txs) = issuers txs"

subsection \<open>The dispenser's verification: contractService.js and handleVerify\<close>

text \<open>
  \<open>ContractService.getPrescriptionDetails\<close> catches the contract's revert and returns a
  record of zero values instead; an empty pharmacy name is shown as a placeholder.
\<close>

definition service_getPrescriptionDetails :: "PrescriptionRegistry \<Rightarrow> bytes32 \<Rightarrow> details" where
  "service_getPrescriptionDetails pr pid =
     (case getPrescriptionDetails pr pid of
        Inr (d, p, h, ipfs, iss, ex, fs) \<Rightarrow>
          (d, p, h, ipfs, iss, ex,
           map (\<lambda>f. f\<lparr>pharmacyName :=
                  (if pharmacyName f = [] then ''Unknown Pharmacy'' else pharmacyName f)\<rparr>) fs)
      | Inl _ \<Rightarrow> (0, 0, 0, [], 0, 0, []))"

datatype Verdict = Valid | NotFound | ContentMismatch | Expired | UnknownReason

text \<open>
  \<open>handleVerify\<close>, from the ledger read to the status message. The two halves of the
  scanned code arrive parsed as 32-byte values \<open>prescriptionIdFromQR\<close> and
  \<open>contentHashFromQR\<close>. The contract decides validity at the block's timestamp (the
  environment of the view call); the reason shown for an invalid record compares the
  expiry with the dispenser's own clock, \<open>Number(expiryDate) < Date.now() / 1000\<close>, which
  on exact numbers is \<open>expiryDate * 1000 < Date.now()\<close> with \<open>Date.now()\<close> in
  milliseconds. The two reads of the ledger (the details and the validity) are taken on
  the same state, and the two hashes are compared as 32-byte values, the form in which
  the issuing side writes them into the code.
\<close>

definition verdictOf ::
  "PrescriptionRegistry \<Rightarrow> env \<Rightarrow> nat \<Rightarrow> bytes32 \<Rightarrow> bytes32 \<Rightarrow> Verdict" where
  "verdictOf pr e dateNow prescriptionIdFromQR contentHashFromQR =
     (case service_getPrescriptionDetails pr prescriptionIdFromQR of
        (d, p, h, ipfs, iss, ex, fs) \<Rightarrow>
          if d = 0 then NotFound
          else if verifyPrescription pr e prescriptionIdFromQR contentHashFromQR then Valid
          else if h \<noteq> contentHashFromQR then ContentMismatch
          else if unat ex * 1000 < dateNow then Expired
          else UnknownReason)"

text \<open>
  \<open>handleVerify\<close> as a whole: it throws before the ledger is read when no wallet is
  connected, when the user is not a verified pharmacy, or when the two halves of the code
  differ. Its checks on the text of the code (empty input, not two parts, not a 32-byte
  hex string) are outside the model, which starts from the two parsed halves.
\<close>

datatype verify_error =
    WalletNotConnected      \<comment> \<open>"Wallet not connected. ..."\<close>
  | NotLoggedInAsPharmacy   \<comment> \<open>"You are not logged in as a verified pharmacy. ..."\<close>
  | QRDataMismatch          \<comment> \<open>"QR code data mismatch. ..."\<close>

definition handleVerify ::
  "bool \<Rightarrow> bool \<Rightarrow> PrescriptionRegistry \<Rightarrow> env \<Rightarrow> nat \<Rightarrow> bytes32 \<Rightarrow> bytes32
     \<Rightarrow> verify_error + Verdict" where
  "handleVerify signer isPharmacyVerified pr e dateNow prescriptionIdFromQR contentHashFromQR =
     (if \<not> signer then Inl WalletNotConnected
      else if \<not> isPharmacyVerified then Inl NotLoggedInAsPharmacy
      else if prescriptionIdFromQR \<noteq> contentHashFromQR then Inl QRDataMismatch
      else Inr (verdictOf pr e dateNow prescriptionIdFromQR contentHashFromQR))"

subsection \<open>The scenario of the specification\<close>

text \<open>
  The scenario of section 8 of the specification, on concrete values: the deployer is
  \<open>1\<close>, the doctor D1 is \<open>0xD1\<close>, the patient P1 is \<open>0xA1\<close>, the pharmacies X and Y
  are \<open>0xE1\<close> and \<open>0xE2\<close>, and the prescription \<open>0xAA\<close> is issued at time \<open>1000\<close>
  with expiry \<open>2000\<close>.
\<close>

definition scenario_setup :: "(env \<times> call) list" where
  "scenario_setup =
     [(\<lparr>msg_sender = 0xD1, block_timestamp = 990\<rparr>, RegisterDoctor 0xD1 ''D1'' ''LIC-1'' ''GP''),
      (\<lparr>msg_sender = 0xE1, block_timestamp = 991\<rparr>, RegisterPharmacy 0xE1 ''pharmacyX''),
      (\<lparr>msg_sender = 0xE2, block_timestamp = 992\<rparr>, RegisterPharmacy 0xE2 ''pharmacyY'')]"

definition scenario_ready :: world where
  "scenario_ready = run (genesis 1) scenario_setup"

definition scenario_issue :: "env \<times> call" where
  "scenario_issue =
     (\<lparr>msg_sender = 0xD1, block_timestamp = 1000\<rparr>, IssuePrescription 0xA1 0xAA ''loc1'' 2000)"

definition scenario_issued :: world where
  "scenario_issued = commit scenario_ready scenario_issue"

definition scenario_history :: "(env \<times> call) list" where
  "scenario_history = scenario_setup @
     [scenario_issue,
      (\<lparr>msg_sender = 0xD1, block_timestamp = 1001\<rparr>, IssuePrescription 0xA2 0xAA ''loc2'' 3000),
      (\<lparr>msg_sender = 0xD1, block_timestamp = 1002\<rparr>, IssuePrescription 0xA2 0xAB ''loc3'' 3000),
      (\<lparr>msg_sender = 0xE1, block_timestamp = 1003\<rparr>, FulfillPrescription 0xAA),
      (\<lparr>msg_sender = 0xD1, block_timestamp = 1004\<rparr>, IssuePrescription 0xA1 0xAC ''loc4'' 3000)]"

section \<open>Properties\<close>

lemmas ledger_defs = registerDoctor_def deactivateDoctor_def registerPharmacy_def
  removePharmacy_def isVerifiedPharmacy_def getPharmacyName_def issuePrescription_def
  fulfillPrescription_def verifyPrescription_def getPrescriptionDetails_def
  hasPharmacyFulfilled_def getPatientPrescriptionIds_def getDoctorPrescriptionIds_def
  service_getPrescriptionDetails_def verdictOf_def genesis_def deploy_def commit_def
  zeroDoctor_def zeroPrescription_def Let_def

lemmas scenario_defs = scenario_setup_def scenario_ready_def scenario_issue_def
  scenario_issued_def scenario_history_def

subsection \<open>Verification\<close>

text \<open>\<open>handleVerify\<close> reaches a verdict only with two equal halves.\<close>

lemma handleVerify_verdict:
  "handleVerify signer isPharmacyVerified pr e dateNow c f = Inr v \<longleftrightarrow>
     signer \<and> isPharmacyVerified \<and> c = f \<and> v = verdictOf pr e dateNow c f"
  by (auto simp: handleVerify_def)



subsection \<open>Issuance\<close>

text \<open>When Issue succeeds and when it fails; the recipient plays no part in either.\<close>

lemma issue_succeeds:
  assumes "isVerifiedDoctor dr (msg_sender e)"
      and "block_timestamp e < x"
      and "\<not> recordExists pr h"
  shows "\<exists>pr'. issuePrescription dr pr e pat h ipfs x = Inr (pr', h)
          \<and> prescriptions pr' h = (prescriptions pr h)
                \<lparr>doctor := msg_sender e, patient := pat, contentHash := h, ipfsHash := ipfs,
                 issuedAt := block_timestamp e, expiryDate := x\<rparr>
          \<and> patientPrescriptions pr' pat = patientPrescriptions pr pat @ [h]
          \<and> doctorPrescriptions pr' (msg_sender e) = doctorPrescriptions pr (msg_sender e) @ [h]"
  using assms by (simp add: issuePrescription_def)

lemma issue_fails_iff:
  "issuePrescription dr pr e pat h ipfs x = Inl err \<longleftrightarrow>
     err = (if \<not> isVerifiedDoctor dr (msg_sender e) then NotVerifiedDoctor
            else if \<not> block_timestamp e < x then InvalidExpiryDate
            else PrescriptionAlreadyExists)
     \<and> \<not> (isVerifiedDoctor dr (msg_sender e) \<and> block_timestamp e < x \<and> \<not> recordExists pr h)"
  by (auto simp: issuePrescription_def)

text \<open>
  An Issue sent by the zero address would leave the slot looking empty. No transaction
  has this sender; the properties of Issue below say so in their hypotheses.
\<close>

lemma issue_by_zero_sender:
  assumes "issuePrescription dr pr e pat h ipfs x = Inr (pr', r)" and "msg_sender e = 0"
  shows "\<not> recordExists pr' h"
  using assms by (auto simp: issuePrescription_def split: if_splits)

text \<open>
  Claim C2. For every fingerprint \<open>f\<close> and every authorized issuer, the first Issue of
  \<open>f\<close> succeeds, creates the record under the id \<open>f\<close> and returns \<open>f\<close>; a second Issue
  of the same \<open>f\<close> by an authorized issuer fails with "already exists", and the ledger
  (the first record and both indexes) is as it was before the second call.

  Both calls meet Issue's other preconditions (an expiry in the future; no record under
  \<open>f\<close> before the first call). The issuer is not the zero address: no transaction has
  the zero address as \<open>msg.sender\<close>, and the contract marks an empty slot by the zero
  doctor.
\<close>

theorem issue_twice_rejected:
  assumes "isVerifiedDoctor (doctorRegistry w) (msg_sender e1)"
      and "msg_sender e1 \<noteq> 0"
      and "block_timestamp e1 < x1"
      and "\<not> recordExists (registry w) f"
      and "isVerifiedDoctor (doctorRegistry w) (msg_sender e2)"
      and "block_timestamp e2 < x2"
  shows "\<exists>w1. transact w e1 (IssuePrescription p1 f l1 x1) = Inr w1
          \<and> issuePrescription (doctorRegistry w) (registry w) e1 p1 f l1 x1 = Inr (registry w1, f)
          \<and> recordExists (registry w1) f
          \<and> doctor (prescriptions (registry w1) f) = msg_sender e1
          \<and> patient (prescriptions (registry w1) f) = p1
          \<and> contentHash (prescriptions (registry w1) f) = f
          \<and> ipfsHash (prescriptions (registry w1) f) = l1
          \<and> expiryDate (prescriptions (registry w1) f) = x1
          \<and> transact w1 e2 (IssuePrescription p2 f l2 x2) = Inl PrescriptionAlreadyExists
          \<and> commit w1 (e2, IssuePrescription p2 f l2 x2) = w1"
proof -
  from issue_succeeds [OF assms(1,3,4)]
  obtain pr1 where first: "issuePrescription (doctorRegistry w) (registry w) e1 p1 f l1 x1
                             = Inr (pr1, f)"
    and rec: "prescriptions pr1 f = (prescriptions (registry w) f)
                \<lparr>doctor := msg_sender e1, patient := p1, contentHash := f, ipfsHash := l1,
                 issuedAt := block_timestamp e1, expiryDate := x1\<rparr>"
    by blast
  let ?w1 = "w\<lparr>registry := pr1\<rparr>"
  from first have t1: "transact w e1 (IssuePrescription p1 f l1 x1) = Inr ?w1"
    by simp
  from rec assms(2) have ex: "recordExists (registry ?w1) f"
    by simp
  from ex assms(5,6)
  have second: "issuePrescription (doctorRegistry ?w1) (registry ?w1) e2 p2 f l2 x2
                  = Inl PrescriptionAlreadyExists"
    by (simp add: issue_fails_iff)
  then have t2: "transact ?w1 e2 (IssuePrescription p2 f l2 x2) = Inl PrescriptionAlreadyExists"
    by simp
  then have "commit ?w1 (e2, IssuePrescription p2 f l2 x2) = ?w1"
    by (simp add: commit_def)
  with t1 first rec ex t2 show ?thesis
    by (intro exI [of _ ?w1]) simp
qed

theorem issue_twice_rejected_witness:
  "isVerifiedDoctor (doctorRegistry scenario_ready) 0xD1
   \<and> (0xD1 :: address) \<noteq> 0
   \<and> (1000 :: uint256) < 2000
   \<and> \<not> recordExists (registry scenario_ready) 0xAA
   \<and> (1005 :: uint256) < 2000
   \<and> (\<exists>w1. transact scenario_ready \<lparr>msg_sender = 0xD1, block_timestamp = 1000\<rparr>
                (IssuePrescription 0xA1 0xAA ''loc1'' 2000) = Inr w1
          \<and> recordExists (registry w1) 0xAA
          \<and> transact w1 \<lparr>msg_sender = 0xD1, block_timestamp = 1005\<rparr>
                (IssuePrescription 0xA1 0xAA ''loc1'' 2000) = Inl PrescriptionAlreadyExists
          \<and> commit w1 (\<lparr>msg_sender = 0xD1, block_timestamp = 1005\<rparr>,
                IssuePrescription 0xA1 0xAA ''loc1'' 2000) = w1)"
proof -
  have h: "isVerifiedDoctor (doctorRegistry scenario_ready)
             (msg_sender \<lparr>msg_sender = 0xD1, block_timestamp = 1000 :: uint256\<rparr>)"
    "msg_sender \<lparr>msg_sender = 0xD1 :: address, block_timestamp = 1000 :: uint256\<rparr> \<noteq> 0"
    "block_timestamp \<lparr>msg_sender = 0xD1 :: address, block_timestamp = 1000 :: uint256\<rparr> < 2000"
    "\<not> recordExists (registry scenario_ready) 0xAA"
    "isVerifiedDoctor (doctorRegistry scenario_ready)
             (msg_sender \<lparr>msg_sender = 0xD1, block_timestamp = 1005 :: uint256\<rparr>)"
    "block_timestamp \<lparr>msg_sender = 0xD1 :: address, block_timestamp = 1005 :: uint256\<rparr> < 2000"
    by (simp_all add: ledger_defs scenario_defs)
  from issue_twice_rejected [OF h, of "0xA1" "''loc1''" "0xA1" "''loc1''"]
  obtain w1 where
    "transact scenario_ready \<lparr>msg_sender = 0xD1, block_timestamp = 1000\<rparr>
       (IssuePrescription 0xA1 0xAA ''loc1'' 2000) = Inr w1"
    "recordExists (registry w1) 0xAA"
    "transact w1 \<lparr>msg_sender = 0xD1, block_timestamp = 1005\<rparr>
       (IssuePrescription 0xA1 0xAA ''loc1'' 2000) = Inl PrescriptionAlreadyExists"
    "commit w1 (\<lparr>msg_sender = 0xD1, block_timestamp = 1005\<rparr>,
       IssuePrescription 0xA1 0xAA ''loc1'' 2000) = w1"
    by blast
  with h show ?thesis
    by (intro conjI exI [of _ w1]) simp_all
qed

text \<open>
  Claim C10. Issue places no precondition on the recipient: whether it succeeds, and with
  which error it fails, is the same for every recipient, the zero address included; and
  for every authorized issuer, fingerprint without a record, locator and expiry strictly
  in the future it succeeds for every recipient (so also for the zero address), stores the
  record with that recipient and appends the id to that recipient's index.
\<close>

theorem issue_any_recipient:
  "(isVerifiedDoctor dr (msg_sender e) \<and> block_timestamp e < x \<and> \<not> recordExists pr h \<longrightarrow>
      (\<exists>pr'. issuePrescription dr pr e pat h ipfs x = Inr (pr', h)
          \<and> patient (prescriptions pr' h) = pat
          \<and> getPatientPrescriptionIds pr' pat = getPatientPrescriptionIds pr pat @ [h]))
   \<and> (issuePrescription dr pr e pat h ipfs x = Inl err \<longleftrightarrow>
        issuePrescription dr pr e 0 h ipfs x = Inl err)"
proof (intro conjI impI)
  assume pre: "isVerifiedDoctor dr (msg_sender e) \<and> block_timestamp e < x \<and> \<not> recordExists pr h"
  then have "isVerifiedDoctor dr (msg_sender e)" "block_timestamp e < x" "\<not> recordExists pr h"
    by blast+
  from issue_succeeds [OF this, of pat ipfs]
  obtain pr' where "issuePrescription dr pr e pat h ipfs x = Inr (pr', h)"
    and "patient (prescriptions pr' h) = pat"
    and "patientPrescriptions pr' pat = patientPrescriptions pr pat @ [h]"
    by auto
  then show "\<exists>pr'. issuePrescription dr pr e pat h ipfs x = Inr (pr', h)
          \<and> patient (prescriptions pr' h) = pat
          \<and> getPatientPrescriptionIds pr' pat = getPatientPrescriptionIds pr pat @ [h]"
    by (auto simp: getPatientPrescriptionIds_def)
next
  show "issuePrescription dr pr e pat h ipfs x = Inl err \<longleftrightarrow>
        issuePrescription dr pr e 0 h ipfs x = Inl err"
    by (simp only: issue_fails_iff [of dr pr e pat] issue_fails_iff [of dr pr e 0])
qed

theorem issue_any_recipient_witness:
  "isVerifiedDoctor (doctorRegistry scenario_ready) 0xD1
   \<and> (1000 :: uint256) < 2000
   \<and> \<not> recordExists (registry scenario_ready) 0xAA
   \<and> (\<exists>pr'. issuePrescription (doctorRegistry scenario_ready) (registry scenario_ready)
               \<lparr>msg_sender = 0xD1, block_timestamp = 1000\<rparr> 0 0xAA ''loc1'' 2000 = Inr (pr', 0xAA)
          \<and> patient (prescriptions pr' 0xAA) = 0
          \<and> getPatientPrescriptionIds pr' 0 = [0xAA])"
proof -
  have h: "isVerifiedDoctor (doctorRegistry scenario_ready)
             (msg_sender \<lparr>msg_sender = 0xD1, block_timestamp = 1000 :: uint256\<rparr>)
           \<and> block_timestamp \<lparr>msg_sender = 0xD1 :: address, block_timestamp = 1000 :: uint256\<rparr> < 2000
           \<and> \<not> recordExists (registry scenario_ready) 0xAA"
    and idx: "getPatientPrescriptionIds (registry scenario_ready) 0 = []"
    by (simp_all add: ledger_defs scenario_defs)
  from issue_any_recipient [of "doctorRegistry scenario_ready"
      "\<lparr>msg_sender = 0xD1, block_timestamp = 1000\<rparr>" 2000 "registry scenario_ready" "0xAA"
      0 "''loc1''"] h
  obtain pr' where
    "issuePrescription (doctorRegistry scenario_ready) (registry scenario_ready)
       \<lparr>msg_sender = 0xD1, block_timestamp = 1000\<rparr> 0 0xAA ''loc1'' 2000 = Inr (pr', 0xAA)"
    "patient (prescriptions pr' 0xAA) = 0"
    "getPatientPrescriptionIds pr' 0 = getPatientPrescriptionIds (registry scenario_ready) 0 @ [0xAA]"
    by blast
  with h idx show ?thesis
    by (intro conjI exI [of _ pr']) simp_all
qed

text \<open>
  Claim C9. Issuer authorization is open to anyone: for every caller and every address
  \<open>a\<close> that is not an active doctor, \<open>registerDoctor\<close> for \<open>a\<close> succeeds whoever calls it,
  and afterwards \<open>a\<close> passes the issuer check of Issue: no Issue by \<open>a\<close> fails as
  unauthorized, and an Issue by \<open>a\<close> that meets the other two preconditions succeeds.
\<close>

theorem register_doctor_open:
  assumes "\<not> isActive (doctors dr a)"
  shows "\<exists>dr'. registerDoctor dr e a nm lic sp = Inr dr'
          \<and> isVerifiedDoctor dr' a
          \<and> (\<forall>pr e' pat h ipfs x. msg_sender e' = a \<longrightarrow>
                issuePrescription dr' pr e' pat h ipfs x \<noteq> Inl NotVerifiedDoctor)
          \<and> (\<forall>pr e' pat h ipfs x. msg_sender e' = a \<and> block_timestamp e' < x \<and>
                \<not> recordExists pr h \<longrightarrow>
                (\<exists>pr'. issuePrescription dr' pr e' pat h ipfs x = Inr (pr', h)))"
  using assms by (simp add: registerDoctor_def issuePrescription_def)

theorem register_doctor_open_witness:
  "\<not> isActive (doctors (doctorRegistry (genesis 1)) 0xD1)
   \<and> (\<exists>dr'. registerDoctor (doctorRegistry (genesis 1))
               \<lparr>msg_sender = 0x77, block_timestamp = 990\<rparr> 0xD1 ''D1'' ''LIC-1'' ''GP'' = Inr dr'
          \<and> isVerifiedDoctor dr' 0xD1
          \<and> (\<exists>pr'. issuePrescription dr' (registry (genesis 1))
                \<lparr>msg_sender = 0xD1, block_timestamp = 1000\<rparr> 0xA1 0xAA ''loc1'' 2000
                  = Inr (pr', 0xAA)))"
proof -
  have h: "\<not> isActive (doctors (doctorRegistry (genesis 1)) 0xD1)"
    and fresh: "\<not> recordExists (registry (genesis 1)) 0xAA"
    by (simp_all add: ledger_defs)
  from register_doctor_open [OF h, of "\<lparr>msg_sender = 0x77, block_timestamp = 990\<rparr>"
      "''D1''" "''LIC-1''" "''GP''"]
  obtain dr' where r:
    "registerDoctor (doctorRegistry (genesis 1))
       \<lparr>msg_sender = 0x77, block_timestamp = 990\<rparr> 0xD1 ''D1'' ''LIC-1'' ''GP'' = Inr dr'"
    "isVerifiedDoctor dr' 0xD1"
    and ok: "\<And>pr e' pat h ipfs x. msg_sender e' = 0xD1 \<and> block_timestamp e' < x \<and>
                \<not> recordExists pr h \<Longrightarrow>
                (\<exists>pr'. issuePrescription dr' pr e' pat h ipfs x = Inr (pr', h))"
    by blast
  from ok [of "\<lparr>msg_sender = 0xD1, block_timestamp = 1000\<rparr>" 2000 "registry (genesis 1)" "0xAA"
      "0xA1" "''loc1''"] fresh
  have "\<exists>pr'. issuePrescription dr' (registry (genesis 1))
                \<lparr>msg_sender = 0xD1, block_timestamp = 1000\<rparr> 0xA1 0xAA ''loc1'' 2000
                  = Inr (pr', 0xAA)"
    by simp
  with h r show ?thesis
    by blast
qed

subsection \<open>Fulfillment\<close>

text \<open>
  Claim C3. For every existing record and every two distinct authorized pharmacies \<open>p\<close>
  and \<open>q\<close>, at times not after the expiry: after one successful Fulfill by \<open>p\<close>, a second
  Fulfill by \<open>p\<close> fails with "already fulfilled" and the ledger, so also the record's
  fulfillment sequence, is as it was before that call, while a Fulfill by \<open>q\<close> (who has
  not fulfilled the record before) succeeds and appends an entry for \<open>q\<close> with \<open>q\<close>'s
  registered name and the time of the call.
\<close>

theorem fulfill_dedup:
  assumes "transact w e1 (FulfillPrescription rid) = Inr w1"
      and "msg_sender e2 = msg_sender e1"
      and "block_timestamp e2 \<le> expiryDate (prescriptions (registry w) rid)"
      and "msg_sender e3 \<noteq> msg_sender e1"
      and "isVerifiedPharmacy (pharmacyRegistry w) (msg_sender e3)"
      and "block_timestamp e3 \<le> expiryDate (prescriptions (registry w) rid)"
      and "\<not> hasPharmacyFulfilled (registry w) rid (msg_sender e3)"
  shows "transact w1 e2 (FulfillPrescription rid) = Inl AlreadyFulfilledByPharmacy
       \<and> commit w1 (e2, FulfillPrescription rid) = w1
       \<and> (\<exists>w2. transact w1 e3 (FulfillPrescription rid) = Inr w2
             \<and> fulfillments (prescriptions (registry w2) rid) =
                 fulfillments (prescriptions (registry w1) rid) @
                   [\<lparr>pharmacyAddress = msg_sender e3,
                     pharmacyName = getPharmacyName (pharmacyRegistry w) (msg_sender e3),
                     fulfilledAt = block_timestamp e3\<rparr>])"
  using assms
  by (auto simp: fulfillPrescription_def commit_def Let_def isVerifiedPharmacy_def
      getPharmacyName_def hasPharmacyFulfilled_def split: if_splits)

theorem fulfill_dedup_witness:
  "transact scenario_issued \<lparr>msg_sender = 0xE1, block_timestamp = 1010\<rparr> (FulfillPrescription 0xAA)
     = Inr (commit scenario_issued
              (\<lparr>msg_sender = 0xE1, block_timestamp = 1010\<rparr>, FulfillPrescription 0xAA))
   \<and> (1020 :: uint256) \<le> expiryDate (prescriptions (registry scenario_issued) 0xAA)
   \<and> (0xE2 :: address) \<noteq> 0xE1
   \<and> isVerifiedPharmacy (pharmacyRegistry scenario_issued) 0xE2
   \<and> (1030 :: uint256) \<le> expiryDate (prescriptions (registry scenario_issued) 0xAA)
   \<and> \<not> hasPharmacyFulfilled (registry scenario_issued) 0xAA 0xE2
   \<and> transact (commit scenario_issued
                  (\<lparr>msg_sender = 0xE1, block_timestamp = 1010\<rparr>, FulfillPrescription 0xAA))
        \<lparr>msg_sender = 0xE1, block_timestamp = 1020\<rparr> (FulfillPrescription 0xAA)
        = Inl AlreadyFulfilledByPharmacy
   \<and> (\<exists>w2. transact (commit scenario_issued
                  (\<lparr>msg_sender = 0xE1, block_timestamp = 1010\<rparr>, FulfillPrescription 0xAA))
               \<lparr>msg_sender = 0xE2, block_timestamp = 1030\<rparr> (FulfillPrescription 0xAA) = Inr w2
          \<and> fulfillments (prescriptions (registry w2) 0xAA) =
               [\<lparr>pharmacyAddress = 0xE1, pharmacyName = ''pharmacyX'', fulfilledAt = 1010\<rparr>,
                \<lparr>pharmacyAddress = 0xE2, pharmacyName = ''pharmacyY'', fulfilledAt = 1030\<rparr>])"
proof -
  have h: "transact scenario_issued \<lparr>msg_sender = 0xE1, block_timestamp = 1010\<rparr>
             (FulfillPrescription 0xAA)
           = Inr (commit scenario_issued
                    (\<lparr>msg_sender = 0xE1, block_timestamp = 1010\<rparr>, FulfillPrescription 0xAA))"
    "msg_sender \<lparr>msg_sender = 0xE1 :: address, block_timestamp = 1020 :: uint256\<rparr>
       = msg_sender \<lparr>msg_sender = 0xE1 :: address, block_timestamp = 1010 :: uint256\<rparr>"
    "block_timestamp \<lparr>msg_sender = 0xE1 :: address, block_timestamp = 1020 :: uint256\<rparr>
       \<le> expiryDate (prescriptions (registry scenario_issued) 0xAA)"
    "msg_sender \<lparr>msg_sender = 0xE2 :: address, block_timestamp = 1030 :: uint256\<rparr>
       \<noteq> msg_sender \<lparr>msg_sender = 0xE1 :: address, block_timestamp = 1010 :: uint256\<rparr>"
    "isVerifiedPharmacy (pharmacyRegistry scenario_issued)
       (msg_sender \<lparr>msg_sender = 0xE2 :: address, block_timestamp = 1030 :: uint256\<rparr>)"
    "block_timestamp \<lparr>msg_sender = 0xE2 :: address, block_timestamp = 1030 :: uint256\<rparr>
       \<le> expiryDate (prescriptions (registry scenario_issued) 0xAA)"
    "\<not> hasPharmacyFulfilled (registry scenario_issued) 0xAA
       (msg_sender \<lparr>msg_sender = 0xE2 :: address, block_timestamp = 1030 :: uint256\<rparr>)"
    by (simp_all add: ledger_defs scenario_defs)
  have first: "fulfillments (prescriptions (registry (commit scenario_issued
                 (\<lparr>msg_sender = 0xE1, block_timestamp = 1010\<rparr>, FulfillPrescription 0xAA))) 0xAA)
               = [\<lparr>pharmacyAddress = 0xE1, pharmacyName = ''pharmacyX'', fulfilledAt = 1010\<rparr>]"
    and nm: "getPharmacyName (pharmacyRegistry scenario_issued) 0xE2 = ''pharmacyY''"
    by (simp_all add: ledger_defs scenario_defs)
  from fulfill_dedup [OF h] first nm
  obtain w2 where
    "transact (commit scenario_issued
                  (\<lparr>msg_sender = 0xE1, block_timestamp = 1010\<rparr>, FulfillPrescription 0xAA))
        \<lparr>msg_sender = 0xE1, block_timestamp = 1020\<rparr> (FulfillPrescription 0xAA)
        = Inl AlreadyFulfilledByPharmacy"
    "transact (commit scenario_issued
                  (\<lparr>msg_sender = 0xE1, block_timestamp = 1010\<rparr>, FulfillPrescription 0xAA))
               \<lparr>msg_sender = 0xE2, block_timestamp = 1030\<rparr> (FulfillPrescription 0xAA) = Inr w2"
    "fulfillments (prescriptions (registry w2) 0xAA) =
               [\<lparr>pharmacyAddress = 0xE1, pharmacyName = ''pharmacyX'', fulfilledAt = 1010\<rparr>,
                \<lparr>pharmacyAddress = 0xE2, pharmacyName = ''pharmacyY'', fulfilledAt = 1030\<rparr>]"
    by auto
  with h show ?thesis
    by (intro conjI exI [of _ w2]) simp_all
qed

text \<open>
  Claim C4. The expiry bound is inclusive: for every existing record and every authorized
  pharmacy that has not yet fulfilled it, Fulfill succeeds when the current time equals
  the expiry exactly, and fails with "expired" when the current time is the expiry plus
  one.
\<close>

theorem fulfill_expiry_boundary:
  assumes "recordExists pr pid"
      and "isVerifiedPharmacy ph a"
      and "\<not> hasPharmacyFulfilled pr pid a"
  shows "(\<exists>pr'. fulfillPrescription ph pr
            \<lparr>msg_sender = a, block_timestamp = expiryDate (prescriptions pr pid)\<rparr> pid = Inr pr'
            \<and> fulfillments (prescriptions pr' pid) = fulfillments (prescriptions pr pid) @
                 [\<lparr>pharmacyAddress = a, pharmacyName = getPharmacyName ph a,
                   fulfilledAt = expiryDate (prescriptions pr pid)\<rparr>])
       \<and> (\<forall>t. unat t = unat (expiryDate (prescriptions pr pid)) + 1 \<longrightarrow>
            fulfillPrescription ph pr \<lparr>msg_sender = a, block_timestamp = t\<rparr> pid
              = Inl PrescriptionExpired)"
  using assms
  by (auto simp: fulfillPrescription_def Let_def isVerifiedPharmacy_def
      getPharmacyName_def hasPharmacyFulfilled_def word_le_nat_alt)

theorem fulfill_expiry_boundary_witness:
  "recordExists (registry scenario_issued) 0xAA
   \<and> isVerifiedPharmacy (pharmacyRegistry scenario_issued) 0xE1
   \<and> \<not> hasPharmacyFulfilled (registry scenario_issued) 0xAA 0xE1
   \<and> expiryDate (prescriptions (registry scenario_issued) 0xAA) = 2000
   \<and> (\<exists>pr'. fulfillPrescription (pharmacyRegistry scenario_issued) (registry scenario_issued)
               \<lparr>msg_sender = 0xE1, block_timestamp = 2000\<rparr> 0xAA = Inr pr')
   \<and> unat (2001 :: uint256) = unat (2000 :: uint256) + 1
   \<and> fulfillPrescription (pharmacyRegistry scenario_issued) (registry scenario_issued)
        \<lparr>msg_sender = 0xE1, block_timestamp = 2001\<rparr> 0xAA = Inl PrescriptionExpired"
proof -
  have h: "recordExists (registry scenario_issued) 0xAA"
    "isVerifiedPharmacy (pharmacyRegistry scenario_issued) 0xE1"
    "\<not> hasPharmacyFulfilled (registry scenario_issued) 0xAA 0xE1"
    and ex: "expiryDate (prescriptions (registry scenario_issued) 0xAA) = 2000"
    and t: "unat (2001 :: uint256) = unat (2000 :: uint256) + 1"
    by (simp_all add: ledger_defs scenario_defs)
  from fulfill_expiry_boundary [OF h] ex t
  have "\<exists>pr'. fulfillPrescription (pharmacyRegistry scenario_issued) (registry scenario_issued)
               \<lparr>msg_sender = 0xE1, block_timestamp = 2000\<rparr> 0xAA = Inr pr'"
    and "fulfillPrescription (pharmacyRegistry scenario_issued) (registry scenario_issued)
        \<lparr>msg_sender = 0xE1, block_timestamp = 2001\<rparr> 0xAA = Inl PrescriptionExpired"
    by auto
  with h ex t show ?thesis
    by blast
qed

text \<open>
  Claim C5, as the contract has it. The claim reads: for every id without a record and
  for every caller, authorized or not, Fulfill fails with "not found". The contract
  decides the caller's authorization first: for an id without a record, Fulfill fails
  with "does not exist" when the caller is a verified pharmacy, and with "not a verified
  pharmacy" when the caller is not.
\<close>

theorem fulfill_unknown_record:
  assumes "\<not> recordExists pr pid"
  shows "fulfillPrescription ph pr e pid =
           Inl (if isVerifiedPharmacy ph (msg_sender e) then PrescriptionDoesNotExist
                else NotVerifiedPharmacy)"
  using assms by (simp add: fulfillPrescription_def Let_def)

theorem fulfill_unknown_record_witness:
  "\<not> recordExists (registry scenario_ready) 0xCC
   \<and> isVerifiedPharmacy (pharmacyRegistry scenario_ready) 0xE1
   \<and> fulfillPrescription (pharmacyRegistry scenario_ready) (registry scenario_ready)
        \<lparr>msg_sender = 0xE1, block_timestamp = 1000\<rparr> 0xCC = Inl PrescriptionDoesNotExist"
proof -
  have h: "\<not> recordExists (registry scenario_ready) 0xCC"
    and v: "isVerifiedPharmacy (pharmacyRegistry scenario_ready) 0xE1"
    by (simp_all add: ledger_defs scenario_defs)
  from fulfill_unknown_record [OF h, of "pharmacyRegistry scenario_ready"
      "\<lparr>msg_sender = 0xE1, block_timestamp = 1000\<rparr>"] v h
  show ?thesis by simp
qed

text \<open>
  The claim C5 as stated fails for a caller who is not a verified pharmacy: on the freshly
  deployed system, where no record and no pharmacy exists, Fulfill of \<open>0xCC\<close> by \<open>0x77\<close>
  fails with "not a verified pharmacy", not with "does not exist".
\<close>

theorem fulfill_unknown_unauthorized_counterexample:
  "\<not> recordExists (registry (genesis 1)) 0xCC
   \<and> fulfillPrescription (pharmacyRegistry (genesis 1)) (registry (genesis 1))
        \<lparr>msg_sender = 0x77, block_timestamp = 1000\<rparr> 0xCC = Inl NotVerifiedPharmacy
   \<and> fulfillPrescription (pharmacyRegistry (genesis 1)) (registry (genesis 1))
        \<lparr>msg_sender = 0x77, block_timestamp = 1000\<rparr> 0xCC \<noteq> Inl PrescriptionDoesNotExist"
  by (simp add: ledger_defs)

subsection \<open>Invariants of the ledger\<close>

text \<open>
  A transaction changes the PrescriptionRegistry storage only when it is a successful
  \<open>issuePrescription\<close> or \<open>fulfillPrescription\<close>.
\<close>

lemma commit_cases:
  "(registry (commit w tx) = registry w \<and> issuedBy w tx = [])
   \<or> (\<exists>pat h ipfs x pr. snd tx = IssuePrescription pat h ipfs x \<and>
         issuePrescription (doctorRegistry w) (registry w) (fst tx) pat h ipfs x = Inr (pr, h) \<and>
         registry (commit w tx) = pr \<and> issuedBy w tx = [h])
   \<or> (\<exists>pid pr. snd tx = FulfillPrescription pid \<and>
         fulfillPrescription (pharmacyRegistry w) (registry w) (fst tx) pid = Inr pr \<and>
         registry (commit w tx) = pr \<and> issuedBy w tx = [])"
  by (cases tx, cases "snd tx")
     (auto simp: commit_def issuePrescription_def split: sum.splits if_splits)


text \<open>The stored content hash of an existing record is the key it is stored under.\<close>

lemma issue_hash_inv:
  assumes "issuePrescription dr pr e pat h ipfs x = Inr (pr', r)"
      and "\<forall>pid. recordExists pr pid \<longrightarrow> contentHash (prescriptions pr pid) = pid"
  shows "\<forall>pid. recordExists pr' pid \<longrightarrow> contentHash (prescriptions pr' pid) = pid"
  using assms by (auto simp: issuePrescription_def split: if_splits)

lemma fulfill_hash_inv:
  assumes "fulfillPrescription ph pr e rid = Inr pr'"
      and "\<forall>pid. recordExists pr pid \<longrightarrow> contentHash (prescriptions pr pid) = pid"
  shows "\<forall>pid. recordExists pr' pid \<longrightarrow> contentHash (prescriptions pr' pid) = pid"
  using assms by (auto simp: fulfillPrescription_def Let_def split: if_splits)

lemma commit_hash_inv:
  assumes "\<forall>pid. recordExists (registry w) pid \<longrightarrow>
             contentHash (prescriptions (registry w) pid) = pid"
  shows "\<forall>pid. recordExists (registry (commit w tx)) pid \<longrightarrow>
           contentHash (prescriptions (registry (commit w tx)) pid) = pid"
  using commit_cases [of w tx] assms issue_hash_inv fulfill_hash_inv
  by (elim disjE exE conjE) (simp, blast, blast)

lemma run_hash_inv:
  assumes "\<forall>pid. recordExists (registry w) pid \<longrightarrow>
             contentHash (prescriptions (registry w) pid) = pid"
  shows "\<forall>pid. recordExists (registry (run w txs)) pid \<longrightarrow>
           contentHash (prescriptions (registry (run w txs)) pid) = pid"
  using assms
proof (induction txs arbitrary: w)
  case Nil
  then show ?case by simp
next
  case (Cons tx txs)
  from commit_hash_inv [OF Cons.prems] show ?case
    by (simp add: Cons.IH)
qed

text \<open>No transaction removes a record or rewrites its content hash.\<close>

lemma issue_keeps_record:
  assumes "issuePrescription dr pr e pat h ipfs x = Inr (pr', r)" and "recordExists pr pid"
  shows "recordExists pr' pid
       \<and> contentHash (prescriptions pr' pid) = contentHash (prescriptions pr pid)"
  using assms by (auto simp: issuePrescription_def split: if_splits)

lemma fulfill_keeps_record:
  assumes "fulfillPrescription ph pr e rid = Inr pr'" and "recordExists pr pid"
  shows "recordExists pr' pid
       \<and> contentHash (prescriptions pr' pid) = contentHash (prescriptions pr pid)"
  using assms by (auto simp: fulfillPrescription_def Let_def split: if_splits)

lemma commit_keeps_record:
  assumes "recordExists (registry w) pid"
  shows "recordExists (registry (commit w tx)) pid
       \<and> contentHash (prescriptions (registry (commit w tx)) pid) =
           contentHash (prescriptions (registry w) pid)"
  using commit_cases [of w tx] assms issue_keeps_record fulfill_keeps_record
  by (elim disjE exE conjE) (simp, blast, blast)

text \<open>A slot without a record has no fulfillment flag set.\<close>

lemma issue_unfulfilled_inv:
  assumes "issuePrescription dr pr e pat h ipfs x = Inr (pr', r)"
      and "\<forall>pid a. \<not> recordExists pr pid \<longrightarrow> \<not> hasFulfilled (prescriptions pr pid) a"
  shows "\<forall>pid a. \<not> recordExists pr' pid \<longrightarrow> \<not> hasFulfilled (prescriptions pr' pid) a"
  using assms by (auto simp: issuePrescription_def split: if_splits)

lemma fulfill_unfulfilled_inv:
  assumes "fulfillPrescription ph pr e rid = Inr pr'"
      and "\<forall>pid a. \<not> recordExists pr pid \<longrightarrow> \<not> hasFulfilled (prescriptions pr pid) a"
  shows "\<forall>pid a. \<not> recordExists pr' pid \<longrightarrow> \<not> hasFulfilled (prescriptions pr' pid) a"
  using assms by (auto simp: fulfillPrescription_def Let_def split: if_splits)

lemma commit_unfulfilled_inv:
  assumes "\<forall>pid a. \<not> recordExists (registry w) pid \<longrightarrow>
             \<not> hasFulfilled (prescriptions (registry w) pid) a"
  shows "\<forall>pid a. \<not> recordExists (registry (commit w tx)) pid \<longrightarrow>
           \<not> hasFulfilled (prescriptions (registry (commit w tx)) pid) a"
  using commit_cases [of w tx] assms issue_unfulfilled_inv fulfill_unfulfilled_inv
  by (elim disjE exE conjE) (simp, blast, blast)

lemma run_unfulfilled_inv:
  assumes "\<forall>pid a. \<not> recordExists (registry w) pid \<longrightarrow>
             \<not> hasFulfilled (prescriptions (registry w) pid) a"
  shows "\<forall>pid a. \<not> recordExists (registry (run w txs)) pid \<longrightarrow>
           \<not> hasFulfilled (prescriptions (registry (run w txs)) pid) a"
  using assms
proof (induction txs arbitrary: w)
  case Nil
  then show ?case by simp
next
  case (Cons tx txs)
  from commit_unfulfilled_inv [OF Cons.prems] show ?case
    by (simp add: Cons.IH)
qed

text \<open>
  The two indexes against the list \<open>log\<close> of the ids issued so far: \<open>log\<close> has no
  repetition and holds exactly the ids of the existing records, and each index entry is
  the sublist of \<open>log\<close> of the records of that patient or doctor.
\<close>

lemma issue_index_inv:
  assumes iss: "issuePrescription dr pr e pat h ipfs x = Inr (pr', r)"
      and nz: "msg_sender e \<noteq> 0"
      and d: "distinct log"
      and s: "set log = {pid. recordExists pr pid}"
      and p: "\<forall>a. patientPrescriptions pr a = filter (\<lambda>pid. patient (prescriptions pr pid) = a) log"
      and q: "\<forall>a. doctorPrescriptions pr a = filter (\<lambda>pid. doctor (prescriptions pr pid) = a) log"
  shows "distinct (log @ [h])
       \<and> set (log @ [h]) = {pid. recordExists pr' pid}
       \<and> (\<forall>a. patientPrescriptions pr' a =
                filter (\<lambda>pid. patient (prescriptions pr' pid) = a) (log @ [h]))
       \<and> (\<forall>a. doctorPrescriptions pr' a =
                filter (\<lambda>pid. doctor (prescriptions pr' pid) = a) (log @ [h]))"
proof -
  from iss have fresh: "doctor (prescriptions pr h) = 0"
    by (simp add: issuePrescription_def split: if_splits)
  with s have notin: "h \<notin> set log" by auto
  from iss have new: "doctor (prescriptions pr' h) = msg_sender e" "patient (prescriptions pr' h) = pat"
    and old: "\<And>pid. pid \<noteq> h \<Longrightarrow> prescriptions pr' pid = prescriptions pr pid"
    and pidx: "\<And>a. patientPrescriptions pr' a =
                 (if a = pat then patientPrescriptions pr a @ [h] else patientPrescriptions pr a)"
    and didx: "\<And>a. doctorPrescriptions pr' a =
                 (if a = msg_sender e then doctorPrescriptions pr a @ [h]
                  else doctorPrescriptions pr a)"
    by (auto simp: issuePrescription_def split: if_splits)
  have same: "prescriptions pr' pid = prescriptions pr pid" if "pid \<in> set log" for pid
    using that notin by (intro old) blast
  have keepp: "filter (\<lambda>pid. patient (prescriptions pr' pid) = a) log =
               filter (\<lambda>pid. patient (prescriptions pr pid) = a) log" for a
    by (rule filter_cong) (simp_all add: same)
  have keepd: "filter (\<lambda>pid. doctor (prescriptions pr' pid) = a) log =
               filter (\<lambda>pid. doctor (prescriptions pr pid) = a) log" for a
    by (rule filter_cong) (simp_all add: same)
  have c1: "distinct (log @ [h])" using d notin by simp
  have c2: "set (log @ [h]) = {pid. recordExists pr' pid}"
  proof -
    have "recordExists pr' pid \<longleftrightarrow> pid = h \<or> recordExists pr pid" for pid
      using new(1) nz fresh old [of pid] by (cases "pid = h") auto
    with s show ?thesis by auto
  qed
  have c3: "patientPrescriptions pr' a =
              filter (\<lambda>pid. patient (prescriptions pr' pid) = a) (log @ [h])" for a
    using p by (simp add: pidx keepp new)
  have c4: "doctorPrescriptions pr' a =
              filter (\<lambda>pid. doctor (prescriptions pr' pid) = a) (log @ [h])" for a
    using q by (simp add: didx keepd new)
  from c1 c2 c3 c4 show ?thesis by blast
qed

lemma fulfill_index_inv:
  assumes ful: "fulfillPrescription ph pr e rid = Inr pr'"
      and d: "distinct log"
      and s: "set log = {pid. recordExists pr pid}"
      and p: "\<forall>a. patientPrescriptions pr a = filter (\<lambda>pid. patient (prescriptions pr pid) = a) log"
      and q: "\<forall>a. doctorPrescriptions pr a = filter (\<lambda>pid. doctor (prescriptions pr pid) = a) log"
  shows "distinct log
       \<and> set log = {pid. recordExists pr' pid}
       \<and> (\<forall>a. patientPrescriptions pr' a =
                filter (\<lambda>pid. patient (prescriptions pr' pid) = a) log)
       \<and> (\<forall>a. doctorPrescriptions pr' a =
                filter (\<lambda>pid. doctor (prescriptions pr' pid) = a) log)"
proof -
  from ful have same: "\<And>pid. doctor (prescriptions pr' pid) = doctor (prescriptions pr pid)"
      "\<And>pid. patient (prescriptions pr' pid) = patient (prescriptions pr pid)"
      "patientPrescriptions pr' = patientPrescriptions pr"
      "doctorPrescriptions pr' = doctorPrescriptions pr"
    by (auto simp: fulfillPrescription_def Let_def split: if_splits)
  with d s p q show ?thesis by simp
qed

lemma issuers_head:
  assumes "0 \<notin> set (issuers (tx # txs))"
  shows "0 \<notin> set (issuers txs) \<and>
         (\<forall>pat h ipfs x. snd tx = IssuePrescription pat h ipfs x \<longrightarrow> msg_sender (fst tx) \<noteq> 0)"
  using assms by (cases tx, cases "snd tx") auto

lemma commit_index_inv:
  assumes nz: "\<forall>pat h ipfs x. snd tx = IssuePrescription pat h ipfs x \<longrightarrow> msg_sender (fst tx) \<noteq> 0"
      and d: "distinct log"
      and s: "set log = {pid. recordExists (registry w) pid}"
      and p: "\<forall>a. patientPrescriptions (registry w) a =
                filter (\<lambda>pid. patient (prescriptions (registry w) pid) = a) log"
      and q: "\<forall>a. doctorPrescriptions (registry w) a =
                filter (\<lambda>pid. doctor (prescriptions (registry w) pid) = a) log"
  shows "distinct (log @ issuedBy w tx)
       \<and> set (log @ issuedBy w tx) = {pid. recordExists (registry (commit w tx)) pid}
       \<and> (\<forall>a. patientPrescriptions (registry (commit w tx)) a =
                filter (\<lambda>pid. patient (prescriptions (registry (commit w tx)) pid) = a)
                  (log @ issuedBy w tx))
       \<and> (\<forall>a. doctorPrescriptions (registry (commit w tx)) a =
                filter (\<lambda>pid. doctor (prescriptions (registry (commit w tx)) pid) = a)
                  (log @ issuedBy w tx))"
  using commit_cases [of w tx]
proof (elim disjE exE conjE)
  assume "registry (commit w tx) = registry w" "issuedBy w tx = []"
  with d s p q show ?thesis by simp
next
  fix pat h ipfs x pr
  assume a: "snd tx = IssuePrescription pat h ipfs x"
    "issuePrescription (doctorRegistry w) (registry w) (fst tx) pat h ipfs x = Inr (pr, h)"
    "registry (commit w tx) = pr" "issuedBy w tx = [h]"
  from nz a(1) have "msg_sender (fst tx) \<noteq> 0" by blast
  from issue_index_inv [OF a(2) this d s p q] a(3,4) show ?thesis by simp
next
  fix pid pr
  assume a: "snd tx = FulfillPrescription pid"
    "fulfillPrescription (pharmacyRegistry w) (registry w) (fst tx) pid = Inr pr"
    "registry (commit w tx) = pr" "issuedBy w tx = []"
  from fulfill_index_inv [OF a(2) d s p q] a(3,4) show ?thesis by simp
qed

lemma run_index_inv:
  assumes "0 \<notin> set (issuers txs)"
      and "distinct log"
      and "set log = {pid. recordExists (registry w) pid}"
      and "\<forall>a. patientPrescriptions (registry w) a =
                filter (\<lambda>pid. patient (prescriptions (registry w) pid) = a) log"
      and "\<forall>a. doctorPrescriptions (registry w) a =
                filter (\<lambda>pid. doctor (prescriptions (registry w) pid) = a) log"
  shows "distinct (log @ issued w txs)
       \<and> set (log @ issued w txs) = {pid. recordExists (registry (run w txs)) pid}
       \<and> (\<forall>a. patientPrescriptions (registry (run w txs)) a =
                filter (\<lambda>pid. patient (prescriptions (registry (run w txs)) pid) = a)
                  (log @ issued w txs))
       \<and> (\<forall>a. doctorPrescriptions (registry (run w txs)) a =
                filter (\<lambda>pid. doctor (prescriptions (registry (run w txs)) pid) = a)
                  (log @ issued w txs))"
  using assms
proof (induction txs arbitrary: w log)
  case Nil
  then show ?case by simp
next
  case (Cons tx txs)
  from issuers_head [OF Cons.prems(1)]
  have nz: "0 \<notin> set (issuers txs)"
    and hd: "\<forall>pat h ipfs x. snd tx = IssuePrescription pat h ipfs x \<longrightarrow> msg_sender (fst tx) \<noteq> 0"
    by blast+
  from commit_index_inv [OF hd Cons.prems(2-5)]
  have step: "distinct (log @ issuedBy w tx)"
    "set (log @ issuedBy w tx) = {pid. recordExists (registry (commit w tx)) pid}"
    "\<forall>a. patientPrescriptions (registry (commit w tx)) a =
                filter (\<lambda>pid. patient (prescriptions (registry (commit w tx)) pid) = a)
                  (log @ issuedBy w tx)"
    "\<forall>a. doctorPrescriptions (registry (commit w tx)) a =
                filter (\<lambda>pid. doctor (prescriptions (registry (commit w tx)) pid) = a)
                  (log @ issuedBy w tx)"
    by blast+
  from Cons.IH [OF nz step] show ?case by simp
qed

text \<open>
  Claim C7. In every reachable state, the content hash stored in a record equals the id
  under which the record is stored; Issue sets it so when it creates the record (and
  returns that id), and no transaction changes the content hash of an existing record
  or removes the record.
\<close>

theorem fingerprint_is_id:
  assumes "deploy deployer = Inr w0"
  shows "(recordExists (registry (run w0 txs)) pid \<longrightarrow>
            contentHash (prescriptions (registry (run w0 txs)) pid) = pid)
       \<and> (issuePrescription dr pr e pat h ipfs x = Inr (pr', r) \<longrightarrow>
            r = h \<and> contentHash (prescriptions pr' h) = h)
       \<and> (recordExists (registry w) pid' \<longrightarrow>
            recordExists (registry (commit w tx)) pid' \<and>
            contentHash (prescriptions (registry (commit w tx)) pid') =
              contentHash (prescriptions (registry w) pid'))"
proof -
  from assms have w0: "w0 = genesis deployer"
    by (simp add: deploy_def split: if_splits)
  have "\<forall>pid. recordExists (registry w0) pid \<longrightarrow>
          contentHash (prescriptions (registry w0) pid) = pid"
    by (simp add: w0 genesis_def zeroPrescription_def)
  from run_hash_inv [OF this, of txs]
  have a: "recordExists (registry (run w0 txs)) pid \<longrightarrow>
            contentHash (prescriptions (registry (run w0 txs)) pid) = pid"
    by blast
  have b: "issuePrescription dr pr e pat h ipfs x = Inr (pr', r) \<longrightarrow>
            r = h \<and> contentHash (prescriptions pr' h) = h"
    by (auto simp: issuePrescription_def split: if_splits)
  from a b commit_keeps_record [of w pid' tx] show ?thesis
    by blast
qed

theorem fingerprint_is_id_witness:
  "deploy 1 = Inr (genesis 1)
   \<and> recordExists (registry (run (genesis 1) scenario_history)) 0xAB
   \<and> contentHash (prescriptions (registry (run (genesis 1) scenario_history)) 0xAB) = 0xAB
   \<and> recordExists (registry scenario_issued) 0xAA
   \<and> contentHash (prescriptions (registry (commit scenario_issued
        (\<lparr>msg_sender = 0xE1, block_timestamp = 1010\<rparr>, FulfillPrescription 0xAA))) 0xAA)
       = contentHash (prescriptions (registry scenario_issued) 0xAA)"
proof -
  have h: "deploy 1 = Inr (genesis 1)"
    and r: "recordExists (registry (run (genesis 1) scenario_history)) 0xAB"
      "recordExists (registry scenario_issued) 0xAA"
    by (simp_all add: ledger_defs scenario_defs)
  from fingerprint_is_id [OF h, of scenario_history "0xAB" _ _ _ _ _ _ _ _ _ scenario_issued
      "0xAA" "(\<lparr>msg_sender = 0xE1, block_timestamp = 1010\<rparr>, FulfillPrescription 0xAA)"] r
  have "contentHash (prescriptions (registry (run (genesis 1) scenario_history)) 0xAB) = 0xAB"
    and "contentHash (prescriptions (registry (commit scenario_issued
        (\<lparr>msg_sender = 0xE1, block_timestamp = 1010\<rparr>, FulfillPrescription 0xAA))) 0xAA)
       = contentHash (prescriptions (registry scenario_issued) 0xAA)"
    by blast+
  with h r show ?thesis
    by blast
qed

text \<open>
  Claim C8. The two reads differ on an unknown id: in every reachable state, for every id
  without a record and every party, \<open>hasPharmacyFulfilled\<close> answers false (it is a view
  without a \<open>require\<close>, so it answers for every id and party), whereas
  \<open>getPrescriptionDetails\<close> of the same id fails with "does not exist".
\<close>

theorem unknown_id_reads:
  assumes "deploy deployer = Inr w0"
      and "\<not> recordExists (registry (run w0 txs)) pid"
  shows "\<not> hasPharmacyFulfilled (registry (run w0 txs)) pid a
       \<and> getPrescriptionDetails (registry (run w0 txs)) pid = Inl PrescriptionDoesNotExist"
proof -
  from assms(1) have w0: "w0 = genesis deployer"
    by (simp add: deploy_def split: if_splits)
  have "\<forall>pid a. \<not> recordExists (registry w0) pid \<longrightarrow>
          \<not> hasFulfilled (prescriptions (registry w0) pid) a"
    by (simp add: w0 genesis_def zeroPrescription_def)
  from run_unfulfilled_inv [OF this, of txs] assms(2)
  have "\<not> hasFulfilled (prescriptions (registry (run w0 txs)) pid) a"
    by blast
  with assms(2) show ?thesis
    by (simp add: hasPharmacyFulfilled_def getPrescriptionDetails_def)
qed

theorem unknown_id_reads_witness:
  "deploy 1 = Inr (genesis 1)
   \<and> \<not> recordExists (registry (run (genesis 1) scenario_history)) 0xCC
   \<and> \<not> hasPharmacyFulfilled (registry (run (genesis 1) scenario_history)) 0xCC 0xE1
   \<and> getPrescriptionDetails (registry (run (genesis 1) scenario_history)) 0xCC
       = Inl PrescriptionDoesNotExist"
proof -
  have h: "deploy 1 = Inr (genesis 1)"
    "\<not> recordExists (registry (run (genesis 1) scenario_history)) 0xCC"
    by (simp_all add: ledger_defs scenario_defs)
  from unknown_id_reads [OF h, of "0xE1"] h show ?thesis
    by blast
qed

text \<open>
  Claim C6. After any history of transactions on the freshly deployed system, the patient
  index of \<open>r\<close> is exactly the list of the ids of the records whose patient is \<open>r\<close>, in
  the order of issuance, and the doctor index of \<open>d\<close> is exactly the list of the ids of
  the records whose doctor is \<open>d\<close>, in the order of issuance: the issued ids are the ids
  of the existing records, each once. An Issue that fails leaves the ledger, and so both
  indexes, unchanged. The callers of Issue are not the zero address, as for every
  transaction.
\<close>

theorem index_consistency:
  assumes "deploy deployer = Inr w0"
      and "0 \<notin> set (issuers txs)"
  shows "getPatientPrescriptionIds (registry (run w0 txs)) r =
           filter (\<lambda>pid. patient (prescriptions (registry (run w0 txs)) pid) = r) (issued w0 txs)
       \<and> getDoctorPrescriptionIds (registry (run w0 txs)) d =
           filter (\<lambda>pid. doctor (prescriptions (registry (run w0 txs)) pid) = d) (issued w0 txs)
       \<and> distinct (issued w0 txs)
       \<and> set (issued w0 txs) = {pid. recordExists (registry (run w0 txs)) pid}
       \<and> (transact w e (IssuePrescription pat h ipfs x) = Inl err \<longrightarrow>
            commit w (e, IssuePrescription pat h ipfs x) = w)"
proof -
  from assms(1) have w0: "w0 = genesis deployer"
    by (simp add: deploy_def split: if_splits)
  have "distinct (([]::bytes32 list) @ issued w0 txs)
       \<and> set ([] @ issued w0 txs) = {pid. recordExists (registry (run w0 txs)) pid}
       \<and> (\<forall>a. patientPrescriptions (registry (run w0 txs)) a =
                filter (\<lambda>pid. patient (prescriptions (registry (run w0 txs)) pid) = a)
                  ([] @ issued w0 txs))
       \<and> (\<forall>a. doctorPrescriptions (registry (run w0 txs)) a =
                filter (\<lambda>pid. doctor (prescriptions (registry (run w0 txs)) pid) = a)
                  ([] @ issued w0 txs))"
    by (rule run_index_inv [OF assms(2)])
       (simp_all add: w0 genesis_def zeroPrescription_def)
  then show ?thesis
    by (simp add: getPatientPrescriptionIds_def getDoctorPrescriptionIds_def commit_def)
qed

theorem index_consistency_witness:
  "deploy 1 = Inr (genesis 1)
   \<and> 0 \<notin> set (issuers scenario_history)
   \<and> issued (genesis 1) scenario_history = [0xAA, 0xAB, 0xAC]
   \<and> getPatientPrescriptionIds (registry (run (genesis 1) scenario_history)) 0xA1 = [0xAA, 0xAC]
   \<and> getPatientPrescriptionIds (registry (run (genesis 1) scenario_history)) 0xA2 = [0xAB]
   \<and> getDoctorPrescriptionIds (registry (run (genesis 1) scenario_history)) 0xD1
       = [0xAA, 0xAB, 0xAC]"
proof -
  have h: "deploy 1 = Inr (genesis 1)" "0 \<notin> set (issuers scenario_history)"
    and i: "issued (genesis 1) scenario_history = [0xAA, 0xAB, 0xAC]"
    and p: "patient (prescriptions (registry (run (genesis 1) scenario_history)) 0xAA) = 0xA1"
      "patient (prescriptions (registry (run (genesis 1) scenario_history)) 0xAB) = 0xA2"
      "patient (prescriptions (registry (run (genesis 1) scenario_history)) 0xAC) = 0xA1"
    and d: "doctor (prescriptions (registry (run (genesis 1) scenario_history)) 0xAA) = 0xD1"
      "doctor (prescriptions (registry (run (genesis 1) scenario_history)) 0xAB) = 0xD1"
      "doctor (prescriptions (registry (run (genesis 1) scenario_history)) 0xAC) = 0xD1"
    by (simp_all add: ledger_defs scenario_defs)
  from index_consistency [OF h, of "0xA1" "0xD1"] index_consistency [OF h, of "0xA2" "0xD1"]
  show ?thesis
    by (simp add: h i p d)
qed

end
